theory Spec2Isabelle
  imports Main "HOL-Library.Word"
begin

section \<open>The data model of \<open>my_header.h\<close>\<close>

text \<open>
  The header declares two enumerations and one result structure:
  \<^verbatim>\<open>
  typedef enum Led { Led1, Led2, Led3, Led4, } Led;
  typedef enum LedState { On, Off, } LedState;
  typedef struct Command { bool success; enum Led led; enum LedState state; } Command;
  struct Command parse_uart(const uint8_t *input, uint32_t length);
  \<close>
  Each enumeration is a datatype with one constructor per enumerator, in the order of
  the declaration; the structure is a record with the three members, in their order.
\<close>

datatype Led = Led1 | Led2 | Led3 | Led4

datatype LedState = On | Off

record Command =
  success :: bool
  led :: Led
  state :: LedState

type_synonym uint8_t = "8 word"

type_synonym uint32_t = "32 word"

subsection \<open>Enumerators and their underlying values\<close>

text \<open>
  The enumerator lists of the two declarations, in source order. No enumerator of the
  header has an initialiser, so C numbers each list from 0 upwards in steps of 1:
  the value of an enumerator is its position in the list.
\<close>

definition Led_enumerators :: "Led list" where
  "Led_enumerators = [Led1, Led2, Led3, Led4]"

definition LedState_enumerators :: "LedState list" where
  "LedState_enumerators = [On, Off]"

definition enumerator_values :: "'a list \<Rightarrow> ('a \<times> int) list" where
  "enumerator_values decl = zip decl (map int [0..<length decl])"

definition Led_value :: "Led \<Rightarrow> int option" where
  "Led_value l = map_of (enumerator_values Led_enumerators) l"

definition LedState_value :: "LedState \<Rightarrow> int option" where
  "LedState_value s = map_of (enumerator_values LedState_enumerators) s"

text \<open>Reading an integer back as an enumerator; \<open>None\<close> when no enumerator has that value.\<close>

definition Led_of_value :: "int \<Rightarrow> Led option" where
  "Led_of_value v = map_of (map prod.swap (enumerator_values Led_enumerators)) v"

definition LedState_of_value :: "int \<Rightarrow> LedState option" where
  "LedState_of_value v = map_of (map prod.swap (enumerator_values LedState_enumerators)) v"

text \<open>A \<open>bool\<close> member holds 0 for false and 1 for true.\<close>

definition bool_of_value :: "int \<Rightarrow> bool option" where
  "bool_of_value v = (if v = 0 then Some False else if v = 1 then Some True else None)"

text \<open>
  The \<open>Command\<close> whose members hold the given underlying values, when each value is one
  its member's type has; \<open>zero_Command\<close> is the zero-initialised structure
  (\<^verbatim>\<open>struct Command c = {0};\<close>), every member of which holds the value 0.
\<close>

definition Command_of_values :: "int \<Rightarrow> int \<Rightarrow> int \<Rightarrow> Command option" where
  "Command_of_values b l s =
     (case bool_of_value b of
        None \<Rightarrow> None
      | Some b' \<Rightarrow>
          (case Led_of_value l of
             None \<Rightarrow> None
           | Some l' \<Rightarrow>
               (case LedState_of_value s of
                  None \<Rightarrow> None
                | Some s' \<Rightarrow> Some \<lparr>success = b', led = l', state = s'\<rparr>)))"

definition zero_Command :: "Command option" where
  "zero_Command = Command_of_values 0 0 0"

subsection \<open>A \<open>Command\<close> as C stores it\<close>

text \<open>
  In C the members \<open>led\<close> and \<open>state\<close> of a \<^verbatim>\<open>struct Command\<close> are objects of
  enumerated type, that is, of an integer type: such an object can hold every value
  of that integer type, not only the values of the enumerators. A stored \<open>Command\<close>
  is therefore the flag and the two integers its enum members hold, taken here as
  32 bits wide (the width of \<^verbatim>\<open>int\<close> and \<^verbatim>\<open>unsigned int\<close>).
\<close>

record Command_object =
  success_member :: bool
  led_member :: "32 word"
  state_member :: "32 word"

text \<open>
  Reading a stored \<open>Command\<close> as a value of the data model: there is one only when
  each enum member holds the value of an enumerator of its type.
\<close>

definition read_Command :: "Command_object \<Rightarrow> Command option" where
  "read_Command obj =
     Command_of_values (if success_member obj then 1 else 0)
       (uint (led_member obj)) (uint (state_member obj))"

text \<open>Storing a value of the data model: each enum member receives its enumerator's value.\<close>

definition store_Command :: "Command \<Rightarrow> Command_object" where
  "store_Command c =
     \<lparr>success_member = success c,
      led_member = word_of_int (the (Led_value (led c))),
      state_member = word_of_int (the (LedState_value (state c)))\<rparr>"

subsection \<open>The length parameter\<close>

text \<open>
  \<open>parse_uart\<close> takes its length as a \<^verbatim>\<open>uint32_t\<close>. An integer argument is converted
  to the parameter's type at the call; \<open>length_param k\<close> is the value the function
  receives when the caller passes the integer \<open>k\<close>.
\<close>

definition length_param :: "int \<Rightarrow> uint32_t" where
  "length_param k = word_of_int k"

text \<open>The number of bytes a call with length \<open>len\<close> describes.\<close>

definition described_bytes :: "uint32_t \<Rightarrow> nat" where
  "described_bytes len = unat len"

section \<open>The parser\<close>

text \<open>
  The header only declares \<open>parse_uart\<close>: its body is not among the sources, and no
  wire format is fixed anywhere. The definitions of this section follow the contract
  the specification gives for it (component design 4.1, testable properties 8), with
  the wire format left as a parameter.
\<close>

text \<open>
  Modelled from the spec: the wire format, which no source defines ("whatever scheme is
  chosen"). A format says which byte sequences encode a recognized \<open>(Led, LedState)\<close>
  pair, and which pair: \<open>None\<close> is a frame that encodes none.
\<close>

type_synonym wire_format = "uint8_t list \<Rightarrow> (Led \<times> LedState) option"

text \<open>
  Modelled from the spec: the input of \<open>parse_uart\<close>, whose body is missing: "a byte
  sequence of length \<open>length\<close> (which may be zero) representing one received UART
  frame", borrowed from a caller who "supplies a valid, length-bounded buffer".
  \<open>input\<close> is what the caller's buffer holds from the pointer on; the frame is its
  first \<open>length\<close> bytes, and there is none (\<open>None\<close>) when the buffer holds fewer.
\<close>

definition received_frame :: "uint8_t list \<Rightarrow> uint32_t \<Rightarrow> uint8_t list option" where
  "received_frame input len =
     (if unat len \<le> length input then Some (take (unat len) input) else None)"

text \<open>
  Modelled from the spec: the \<open>Command\<close> of a failed parse, which the missing body of
  \<open>parse_uart\<close> would build: "On failure (\<open>success == false\<close>) ... the \<open>led\<close>/\<open>state\<close>
  fields are unspecified", so they are a parameter.
\<close>

definition failure :: "Led \<times> LedState \<Rightarrow> Command" where
  "failure unspec = \<lparr>success = False, led = fst unspec, state = snd unspec\<rparr>"

text \<open>
  Modelled from the spec: the body of \<open>parse_uart\<close>, of which the header has the
  prototype only. By the spec, a length of 0 gives \<open>success == false\<close>; a frame that
  encodes no recognized pair gives \<open>success == false\<close>; a frame that encodes a pair gives
  \<open>success == true\<close> with exactly that pair. The result is \<open>None\<close> only for a call outside
  the contract, on a buffer shorter than the length passed with it.
\<close>

definition parse_uart ::
  "wire_format \<Rightarrow> Led \<times> LedState \<Rightarrow> uint8_t list \<Rightarrow> uint32_t \<Rightarrow> Command option" where
  "parse_uart fmt unspec input len =
     (if len = 0 then Some (failure unspec)
      else
        (case received_frame input len of
           None \<Rightarrow> None
         | Some frame \<Rightarrow>
             (case fmt frame of
                None \<Rightarrow> Some (failure unspec)
              | Some (l, s) \<Rightarrow> Some \<lparr>success = True, led = l, state = s\<rparr>)))"

subsection \<open>One wire format, as an instance\<close>

text \<open>
  A single-byte opcode format, one of the many a parser could choose: the high nibble
  numbers the LED from 1, the low nibble is 1 for on and 0 for off. It serves to run
  the parser on concrete frames.
\<close>

definition opcode_table :: "(uint8_t \<times> (Led \<times> LedState)) list" where
  "opcode_table =
     [(0x11, (Led1, On)), (0x10, (Led1, Off)),
      (0x21, (Led2, On)), (0x20, (Led2, Off)),
      (0x31, (Led3, On)), (0x30, (Led3, Off)),
      (0x41, (Led4, On)), (0x40, (Led4, Off))]"

definition opcode_format :: wire_format where
  "opcode_format frame = (case frame of [b] \<Rightarrow> map_of opcode_table b | _ \<Rightarrow> None)"

definition opcode_encode :: "Led \<Rightarrow> LedState \<Rightarrow> uint8_t list" where
  "opcode_encode l s = map fst (filter (\<lambda>(b, p). p = (l, s)) opcode_table)"

section \<open>Properties of the data model\<close>

lemma Led_cases: "l = Led1 \<or> l = Led2 \<or> l = Led3 \<or> l = Led4"
  by (cases l) simp_all

lemma LedState_cases: "s = On \<or> s = Off"
  by (cases s) simp_all

lemma Led_UNIV: "(UNIV :: Led set) = {Led1, Led2, Led3, Led4}"
  using Led_cases by auto

lemma LedState_UNIV: "(UNIV :: LedState set) = {On, Off}"
  using LedState_cases by auto

lemma enumerator_values_Led:
  "enumerator_values Led_enumerators = [(Led1, 0), (Led2, 1), (Led3, 2), (Led4, 3)]"
proof -
  have "[0..<4] = [0, 1, 2, Suc 2]"
    by (simp add: upt_conv_Cons)
  then show ?thesis
    by (simp add: enumerator_values_def Led_enumerators_def)
qed

lemma enumerator_values_LedState:
  "enumerator_values LedState_enumerators = [(On, 0), (Off, 1)]"
proof -
  have "[0..<2] = [0, Suc 0]"
    by (simp add: upt_conv_Cons)
  then show ?thesis
    by (simp add: enumerator_values_def LedState_enumerators_def)
qed

text \<open>
  C7. The data model has exactly the declared shape. \<open>Led\<close> is a closed enumeration of
  exactly four pairwise different values \<open>Led1\<close>, \<open>Led2\<close>, \<open>Led3\<close>, \<open>Led4\<close>; \<open>LedState\<close>
  is a closed enumeration of exactly the two different values \<open>On\<close> and \<open>Off\<close>; a
  \<open>Command\<close> is determined by exactly three fields, a boolean \<open>success\<close>, an \<open>Led\<close> in
  \<open>led\<close> and an \<open>LedState\<close> in \<open>state\<close>, each of which can be chosen freely, so that
  there are \<open>2 * 4 * 2 = 16\<close> commands.
\<close>

theorem data_model_shape:
  "(UNIV :: Led set) = {Led1, Led2, Led3, Led4}
   \<and> distinct [Led1, Led2, Led3, Led4]
   \<and> card (UNIV :: Led set) = 4
   \<and> (UNIV :: LedState set) = {On, Off}
   \<and> distinct [On, Off]
   \<and> card (UNIV :: LedState set) = 2
   \<and> (c :: Command) = \<lparr>success = success c, led = led c, state = state c\<rparr>
   \<and> success \<lparr>success = b, led = l, state = s\<rparr> = b
   \<and> led \<lparr>success = b, led = l, state = s\<rparr> = l
   \<and> state \<lparr>success = b, led = l, state = s\<rparr> = s
   \<and> (\<lparr>success = b, led = l, state = s\<rparr> = \<lparr>success = b', led = l', state = s'\<rparr>
        \<longleftrightarrow> b = b' \<and> l = l' \<and> s = s')"
proof -
  have "card (UNIV :: Led set) = 4"
    by (simp add: Led_UNIV)
  moreover have "card (UNIV :: LedState set) = 2"
    by (simp add: LedState_UNIV)
  ultimately show ?thesis
    using Led_UNIV LedState_UNIV by simp
qed

text \<open>
  C8. The enumerators take consecutive underlying values starting at 0: \<open>Led1\<close> to
  \<open>Led4\<close> are 0 to 3, \<open>On\<close> is 0 and \<open>Off\<close> is 1. So the zero-initialised \<open>Command\<close>
  is \<open>success = False\<close>, \<open>led = Led1\<close>, \<open>state = On\<close>: the value 0 of the state member
  is the "on" state, not "off".
\<close>

theorem enumerator_values_from_zero:
  "map Led_value [Led1, Led2, Led3, Led4] = [Some 0, Some 1, Some 2, Some 3]
   \<and> map LedState_value [On, Off] = [Some 0, Some 1]
   \<and> zero_Command = Some \<lparr>success = False, led = Led1, state = On\<rparr>
   \<and> LedState_of_value 0 = Some On
   \<and> LedState_of_value 0 \<noteq> Some Off"
  by (simp add: Led_value_def LedState_value_def zero_Command_def Command_of_values_def
      bool_of_value_def Led_of_value_def LedState_of_value_def
      enumerator_values_Led enumerator_values_LedState)

lemma Led_of_value_Some_iff: "(Led_of_value (uint w) \<noteq> None) = (w < (4 :: 32 word))"
proof -
  have "(w < 4) = (uint w < 4)"
    by (simp add: word_less_def)
  moreover have "(uint w < 4) = (uint w = 0 \<or> uint w = 1 \<or> uint w = 2 \<or> uint w = 3)"
    using uint_ge_0 [of w] by arith
  moreover have "(Led_of_value v \<noteq> None) = (v = 0 \<or> v = 1 \<or> v = 2 \<or> v = 3)" for v
    by (simp add: Led_of_value_def enumerator_values_Led)
  ultimately show ?thesis
    by (simp only:)
qed

lemma LedState_of_value_Some_iff:
  "(LedState_of_value (uint w) \<noteq> None) = (w < (2 :: 32 word))"
proof -
  have "(w < 2) = (uint w < 2)"
    by (simp add: word_less_def)
  moreover have "(uint w < 2) = (uint w = 0 \<or> uint w = 1)"
    using uint_ge_0 [of w] by arith
  moreover have "(LedState_of_value v \<noteq> None) = (v = 0 \<or> v = 1)" for v
    by (simp add: LedState_of_value_def enumerator_values_LedState)
  ultimately show ?thesis
    by (simp only:)
qed

lemma read_store_Command:
  "read_Command (store_Command \<lparr>success = b, led = l, state = s\<rparr>)
     = Some \<lparr>success = b, led = l, state = s\<rparr>"
  by (cases l; cases s)
    (simp_all add: read_Command_def store_Command_def Command_of_values_def bool_of_value_def
      Led_value_def LedState_value_def Led_of_value_def LedState_of_value_def
      enumerator_values_Led enumerator_values_LedState)

text \<open>
  C9, as the claim states it, fails on the C types: the \<open>led\<close> member of a
  \<^verbatim>\<open>struct Command\<close> with \<open>success == false\<close> can hold 4, which is the value of no
  enumerator of \<open>Led\<close> (their values are 0 to 3), and likewise the \<open>state\<close> member can
  hold 2; such a \<open>Command\<close> reads as no value of the data model.
\<close>

theorem Command_member_outside_enumeration:
  "Led_of_value (uint (led_member \<lparr>success_member = False, led_member = 4, state_member = 0\<rparr>))
     = None
   \<and> read_Command \<lparr>success_member = False, led_member = 4, state_member = 0\<rparr> = None
   \<and> LedState_of_value
        (uint (state_member \<lparr>success_member = False, led_member = 0, state_member = 2\<rparr>))
     = None
   \<and> read_Command \<lparr>success_member = False, led_member = 0, state_member = 2\<rparr> = None
   \<and> map Led_value [Led1, Led2, Led3, Led4] = [Some 0, Some 1, Some 2, Some 3]
   \<and> map LedState_value [On, Off] = [Some 0, Some 1]"
  by (simp add: read_Command_def Command_of_values_def bool_of_value_def
      Led_value_def LedState_value_def Led_of_value_def LedState_of_value_def
      enumerator_values_Led enumerator_values_LedState)

text \<open>
  C9, amended. Every stored \<open>Command\<close>, whatever its success flag, has its \<open>led\<close> and
  \<open>state\<close> members: it is the flag and the two integers they hold, which a caller can
  always read. The type does not tie them to the flag: every \<open>Command\<close> of the data
  model, also with \<open>success = False\<close>, can be stored and is read back unchanged. But a
  member holds a value of its closed enumeration only when the integer it holds is
  an enumerator's: below 4 for \<open>led\<close>, below 2 for \<open>state\<close>; the C types enforce
  neither.
\<close>

theorem Command_object_fields_present:
  "obj = \<lparr>success_member = success_member obj, led_member = led_member obj,
           state_member = state_member obj\<rparr>
   \<and> (Led_of_value (uint (led_member obj)) \<noteq> None) = (led_member obj < 4)
   \<and> (LedState_of_value (uint (state_member obj)) \<noteq> None) = (state_member obj < 2)
   \<and> (read_Command obj \<noteq> None) = (led_member obj < 4 \<and> state_member obj < 2)
   \<and> success_member (store_Command \<lparr>success = False, led = l, state = s\<rparr>) = False
   \<and> read_Command (store_Command \<lparr>success = b, led = l, state = s\<rparr>)
        = Some \<lparr>success = b, led = l, state = s\<rparr>"
proof -
  have shape: "obj = \<lparr>success_member = success_member obj, led_member = led_member obj,
      state_member = state_member obj\<rparr>"
    by simp
  have "(read_Command obj \<noteq> None)
      = (Led_of_value (uint (led_member obj)) \<noteq> None
         \<and> LedState_of_value (uint (state_member obj)) \<noteq> None)"
    by (simp add: read_Command_def Command_of_values_def bool_of_value_def
        split: option.splits)
  then have rd: "(read_Command obj \<noteq> None) = (led_member obj < 4 \<and> state_member obj < 2)"
    by (simp only: Led_of_value_Some_iff LedState_of_value_Some_iff)
  have flag: "success_member (store_Command \<lparr>success = False, led = l, state = s\<rparr>) = False"
    by (simp add: store_Command_def)
  from shape rd flag show ?thesis
    by (simp only: Led_of_value_Some_iff LedState_of_value_Some_iff read_store_Command
        simp_thms)
qed

text \<open>
  C10. The length parameter is a 32-bit unsigned integer: a length describes at most
  \<open>2 ^ 32 - 1\<close> bytes and is never negative, and an integer argument is taken modulo
  \<open>2 ^ 32\<close>, so that \<open>k\<close> and \<open>k + 2 ^ 32\<close> are the same length.
\<close>

theorem length_is_uint32:
  "described_bytes len \<le> 2 ^ 32 - 1
   \<and> 0 \<le> uint (length_param k)
   \<and> uint (length_param k) \<le> 2 ^ 32 - 1
   \<and> uint (length_param k) = k mod 2 ^ 32
   \<and> length_param (k + 2 ^ 32) = length_param k
   \<and> length_param (uint len) = len"
proof -
  have "unat len < 2 ^ 32"
    using unsigned_less [of len] by simp
  then have bytes: "described_bytes len \<le> 2 ^ 32 - 1"
    by (simp add: described_bytes_def)
  have val: "uint (length_param k) = k mod 2 ^ 32"
    by (simp add: length_param_def uint_word_of_int)
  have lo: "0 \<le> uint (length_param k)"
    by simp
  have "uint (length_param k) < 2 ^ 32"
    using uint_bounded [of "length_param k"] by simp
  then have hi: "uint (length_param k) \<le> 2 ^ 32 - 1"
    by simp
  have wrap: "length_param (k + 2 ^ 32) = length_param k"
    unfolding length_param_def
    by (simp add: word_of_int_eq_iff take_bit_eq_mod)
  have inv: "length_param (uint len) = len"
    by (simp add: length_param_def)
  from bytes val lo hi wrap inv show ?thesis
    by simp
qed

section \<open>Properties of the parser\<close>

lemma unat_length_param:
  assumes "n < 2 ^ 32"
  shows "unat (of_nat n :: uint32_t) = n"
  using assms by (simp add: unsigned_of_nat take_bit_nat_eq_self)

lemma received_frame_prefix:
  assumes "length frame < 2 ^ 32"
  shows "received_frame (frame @ rest) (of_nat (length frame)) = Some frame"
  using unat_length_param [OF assms] by (simp add: received_frame_def)

lemma length_param_nonzero:
  assumes "0 < n" and "n < 2 ^ 32"
  shows "(of_nat n :: uint32_t) \<noteq> 0"
proof
  assume "(of_nat n :: uint32_t) = 0"
  then have "unat (of_nat n :: uint32_t) = 0"
    by simp
  moreover have "unat (of_nat n :: uint32_t) = n"
    using assms(2) by (rule unat_length_param)
  ultimately show False
    using assms(1) by simp
qed

text \<open>
  C1. Round trip. Let \<open>encode\<close> be an encoding function of the wire format \<open>fmt\<close> at the
  pair \<open>(l, s)\<close>: the format reads \<open>encode l s\<close> as exactly \<open>(l, s)\<close>, and \<open>encode l s\<close>
  is a frame the interface can pass (not empty, shorter than \<open>2 ^ 32\<close> bytes). Then
  parsing a buffer that starts with \<open>encode l s\<close>, with the length of \<open>encode l s\<close>,
  succeeds and returns that pair: \<open>success = True\<close>, \<open>led = l\<close>, \<open>state = s\<close>.
\<close>

theorem parse_uart_roundtrip:
  assumes "fmt (encode l s) = Some (l, s)"
    and "encode l s \<noteq> []"
    and "length (encode l s) < 2 ^ 32"
  shows "parse_uart fmt unspec (encode l s @ rest) (of_nat (length (encode l s)))
           = Some \<lparr>success = True, led = l, state = s\<rparr>"
proof -
  let ?frame = "encode l s"
  have "0 < length ?frame"
    using assms(2) by simp
  then have nz: "(of_nat (length ?frame) :: uint32_t) \<noteq> 0"
    using assms(3) by (rule length_param_nonzero)
  have "received_frame (?frame @ rest) (of_nat (length ?frame)) = Some ?frame"
    using assms(3) by (rule received_frame_prefix)
  then show ?thesis
    using nz assms(1) by (simp add: parse_uart_def)
qed

theorem parse_uart_roundtrip_witness:
  "opcode_format (opcode_encode Led3 Off) = Some (Led3, Off)
   \<and> opcode_encode Led3 Off = [0x30]
   \<and> parse_uart opcode_format (Led1, On) [0x30, 0xFF] 1
        = Some \<lparr>success = True, led = Led3, state = Off\<rparr>"
proof -
  have enc: "opcode_encode Led3 Off = [0x30]"
    by (simp add: opcode_encode_def opcode_table_def)
  have dec: "opcode_format (opcode_encode Led3 Off) = Some (Led3, Off)"
    by (simp add: enc opcode_format_def opcode_table_def)
  have "parse_uart opcode_format (Led1, On) (opcode_encode Led3 Off @ [0xFF])
          (of_nat (length (opcode_encode Led3 Off)))
        = Some \<lparr>success = True, led = Led3, state = Off\<rparr>"
    using parse_uart_roundtrip [of opcode_format opcode_encode Led3 Off "(Led1, On)" "[0xFF]"]
    by (simp add: dec) (simp add: enc)
  then show ?thesis
    using enc dec by simp
qed

text \<open>
  C2. A frame that encodes no recognized pair is rejected by a normal return. For a
  buffer that holds the \<open>len\<close> bytes passed with it, when the frame is empty or the
  wire format recognizes no pair in it, \<open>parse_uart\<close> returns a \<open>Command\<close> (the result
  is \<open>Some\<close>, not the fault \<open>None\<close>) and that \<open>Command\<close> has \<open>success = False\<close>.
\<close>

theorem parse_uart_rejects_unrecognized:
  assumes "unat len \<le> length input"
    and "len = 0 \<or> fmt (take (unat len) input) = None"
  shows "parse_uart fmt unspec input len = Some (failure unspec)
         \<and> success (failure unspec) = False"
proof (cases "len = 0")
  case True
  then show ?thesis
    by (simp add: parse_uart_def failure_def)
next
  case False
  with assms(2) have "fmt (take (unat len) input) = None"
    by simp
  moreover have "received_frame input len = Some (take (unat len) input)"
    using assms(1) by (simp add: received_frame_def)
  ultimately show ?thesis
    using False by (simp add: parse_uart_def failure_def)
qed

theorem parse_uart_rejects_unrecognized_witness:
  "opcode_format (take (unat (2 :: uint32_t)) [0x30, 0x31, 0x00]) = None
   \<and> parse_uart opcode_format (Led2, Off) [0x30, 0x31, 0x00] 2
        = Some \<lparr>success = False, led = Led2, state = Off\<rparr>
   \<and> opcode_format (take (unat (1 :: uint32_t)) [0x7F]) = None
   \<and> parse_uart opcode_format (Led2, Off) [0x7F] 1
        = Some \<lparr>success = False, led = Led2, state = Off\<rparr>"
proof -
  have two: "opcode_format (take (unat (2 :: uint32_t)) [0x30, 0x31, 0x00]) = None"
    by (simp add: opcode_format_def)
  have one: "opcode_format (take (unat (1 :: uint32_t)) [0x7F]) = None"
    by (simp add: opcode_format_def opcode_table_def)
  have "parse_uart opcode_format (Led2, Off) [0x30, 0x31, 0x00] 2 = Some (failure (Led2, Off))"
    using parse_uart_rejects_unrecognized
      [of 2 "[0x30, 0x31, 0x00]" opcode_format "(Led2, Off)"] two
    by simp
  moreover have "parse_uart opcode_format (Led2, Off) [0x7F] 1 = Some (failure (Led2, Off))"
    using parse_uart_rejects_unrecognized [of 1 "[0x7F]" opcode_format "(Led2, Off)"] one
    by simp
  ultimately show ?thesis
    using two one by (simp add: failure_def)
qed

text \<open>
  C3. For every buffer (also the empty one, which a null pointer gives) and every wire
  format, a call with length 0 returns a \<open>Command\<close> with \<open>success = False\<close>.
\<close>

theorem parse_uart_length_zero:
  "parse_uart fmt unspec input 0 = Some (failure unspec)
   \<and> success (failure unspec) = False
   \<and> parse_uart fmt unspec input (length_param 0) = Some (failure unspec)"
  by (simp add: parse_uart_def failure_def length_param_def)

end
